theory Spec2Isabelle
  imports
    Complex_Main
    "HOL-Library.List_Lexorder"
    "HOL-Library.Product_Lexorder"
    "HOL-Library.Multiset"
    "HOL-Library.Code_Target_Nat"
begin

section \<open>The product catalog of \<open>product_catalog.py\<close>\<close>

text \<open>
  The catalog is a Python class over one SQLite table, \<open>products\<close>. The table is modelled
  as the list of its rows in insertion order, each SQL statement as the list function it
  computes, and each method of \<open>ProductCatalog\<close> as a function from the store (and the
  clock readings the method takes) to its result, an exception or a value, and the store
  it leaves.

  \<^item> Text is a list of code points, as a Python \<open>str\<close> is. SQLite compares and orders
    text by its UTF-8 bytes, which is the order of the code point lists.
  \<^item> A Python \<open>int\<close> is unbounded; SQLite integers have 64 bits, and binding a larger
    one raises \<open>OverflowError\<close>.
  \<^item> A float is its exact value, or an infinity, or not a number. The results of the
    float operations (subtraction, division, product, \<open>round\<close>, \<open>SUM\<close>) and of
    \<open>str.upper\<close> are not computed here: these functions are parameters of the model,
    collected in the record \<open>library\<close>, and every property holds for each choice of
    them.
  \<^item> Rows that compare equal under an \<open>ORDER BY\<close> stay in insertion order.
  \<^item> Failures of the file system, and the id counter reaching \<open>2^63\<close>, are left out.
\<close>

subsection \<open>Text\<close>

type_synonym pystr = "nat list"

text \<open>A string literal.\<close>

definition str :: "string \<Rightarrow> pystr" where
  "str s = map of_char s"

text \<open>
  Text is bound as UTF-8: a lone surrogate cannot be encoded, and the size that counts
  for SQLite's limits is the number of bytes.
\<close>

definition encodable :: "pystr \<Rightarrow> bool" where
  "encodable s = list_all (\<lambda>c. \<not> (0xD800 \<le> c \<and> c \<le> 0xDFFF)) s"



subsection \<open>Numbers\<close>

definition int64 :: "int \<Rightarrow> bool" where
  "int64 n = (- (2 ^ 63) \<le> n \<and> n < 2 ^ 63)"

text \<open>
  The double nearest to an integer (ties to the even significand of 53 bits). SQLite
  adds in doubles when an integer addition overflows.
\<close>

function bit_length :: "int \<Rightarrow> nat" where
  "bit_length n = (if n \<le> 0 then 0 else Suc (bit_length (n div 2)))"
  by pat_completeness auto
termination
  by (relation "measure nat") auto

declare bit_length.simps [simp del]

definition to_double :: "int \<Rightarrow> int" where
  "to_double n =
     (let k = bit_length \<bar>n\<bar>
      in if k \<le> 53 then n
         else let q = 2 ^ (k - 53); r = n div q; m = n mod q
              in q * (if 2 * m < q then r
                      else if q < 2 * m then r + 1
                      else if even r then r else r + 1))"

text \<open>
  A Python float: a finite value, negative zero, an infinity, or not a number.
\<close>

datatype py_float = Num rat | NegZero | PosInf | NegInf | NaN

definition is_finite :: "py_float \<Rightarrow> bool" where
  "is_finite x = (case x of Num r \<Rightarrow> True | NegZero \<Rightarrow> True | _ \<Rightarrow> False)"

text \<open>\<open>x <= 0\<close> and \<open>not x\<close> on a float.\<close>

definition float_le_zero :: "py_float \<Rightarrow> bool" where
  "float_le_zero x =
     (case x of Num r \<Rightarrow> r \<le> 0 | NegZero \<Rightarrow> True | PosInf \<Rightarrow> False
      | NegInf \<Rightarrow> True | NaN \<Rightarrow> False)"


text \<open>
  What a \<open>REAL\<close> column holds after a float is bound to it: not-a-number is stored
  as \<open>NULL\<close>, and negative zero is read back as zero.
\<close>

definition sql_real :: "py_float \<Rightarrow> py_float option" where
  "sql_real x = (case x of NaN \<Rightarrow> None | NegZero \<Rightarrow> Some (Num 0) | _ \<Rightarrow> Some x)"

text \<open>
  The format \<open>:.nf\<close> rounds to the nearest value with \<open>n\<close> decimals, a tie going to
  the even neighbour.
\<close>

definition round_half_even :: "rat \<Rightarrow> int" where
  "round_half_even x =
     (let f = \<lfloor>x\<rfloor>; r = x - of_int f
      in if r < 1 / 2 then f
         else if 1 / 2 < r then f + 1
         else if even f then f else f + 1)"

text \<open>\<open>str\<close> of a natural number, an integer and a boolean.\<close>

definition digit_char :: "nat \<Rightarrow> nat" where
  "digit_char d = 48 + d"

function show_nat :: "nat \<Rightarrow> pystr" where
  "show_nat n = (if n < 10 then [digit_char n] else show_nat (n div 10) @ [digit_char (n mod 10)])"
  by pat_completeness auto
termination
  by (relation "measure (\<lambda>n. n)") auto

declare show_nat.simps [simp del]

definition show_int :: "int \<Rightarrow> pystr" where
  "show_int i = (if i < 0 then 45 # show_nat (nat (- i)) else show_nat (nat i))"

definition show_bool :: "bool \<Rightarrow> string" where
  "show_bool b = (if b then ''True'' else ''False'')"

text \<open>The format \<open>:.nf\<close> of a finite value, for \<open>n\<close> at least 1: sign, integer part,
  point, \<open>n\<close> digits; and of any float.\<close>

definition fmt_fixed :: "nat \<Rightarrow> rat \<Rightarrow> pystr" where
  "fmt_fixed n x =
     (let k = nat (round_half_even (\<bar>x\<bar> * 10 ^ n));
          fp = show_nat (k mod 10 ^ n)
      in (if x < 0 then [45] else []) @ show_nat (k div 10 ^ n) @ [46]
           @ replicate (n - length fp) 48 @ fp)"

definition py_format :: "nat \<Rightarrow> py_float \<Rightarrow> pystr" where
  "py_format n x =
     (case x of Num r \<Rightarrow> fmt_fixed n r | NegZero \<Rightarrow> 45 # fmt_fixed n 0
      | PosInf \<Rightarrow> str ''inf'' | NegInf \<Rightarrow> str ''-inf'' | NaN \<Rightarrow> str ''nan'')"

subsection \<open>The library\<close>

text \<open>
  The functions of Python and SQLite whose results the model does not compute:
  \<open>str.upper\<close>; float subtraction, division and product; \<open>round(x, ndigits)\<close>;
  \<open>str\<close> of the float that has a given integral value; SQLite's product of a
  \<open>REAL\<close> and a number, \<open>NULL\<close> when the result is not a number; and SQLite's \<open>SUM\<close>
  over one or more \<open>REAL\<close> values, \<open>NULL\<close> when the result is not a number.
\<close>

record library =
  upper :: "pystr \<Rightarrow> pystr"
  float_sub :: "py_float \<Rightarrow> py_float \<Rightarrow> py_float"
  float_div :: "py_float \<Rightarrow> py_float \<Rightarrow> py_float"
  float_mul :: "py_float \<Rightarrow> py_float \<Rightarrow> py_float"
  float_round :: "nat \<Rightarrow> py_float \<Rightarrow> py_float"
  float_repr :: "int \<Rightarrow> pystr"
  sql_mul :: "py_float \<Rightarrow> int \<Rightarrow> py_float option"
  sql_sum :: "py_float list \<Rightarrow> py_float option"

text \<open>\<open>str.upper\<close> maps its own results to themselves.\<close>

definition upper_idempotent :: "library \<Rightarrow> bool" where
  "upper_idempotent L = (\<forall>s. upper L (upper L s) = upper L s)"

subsection \<open>Models\<close>

text \<open>
  The exceptions the methods raise. \<open>sqlite3.IntegrityError\<close> is what a violated
  \<open>UNIQUE\<close> or \<open>NOT NULL\<close> constraint raises.
\<close>

datatype error =
  IntegrityError | OverflowError | UnicodeEncodeError | OperationalError | TypeError

text \<open>
  The dataclass \<open>Product\<close>. Its field \<open>id\<close> is \<open>product_id\<close> here. The cost of a row
  read from the table is \<open>None\<close> when the column is \<open>NULL\<close>. The inventory is the value
  of the column: SQLite holds it as an integer when it has 64 bits and as a double
  otherwise, and Python reads it as an \<open>int\<close> or a \<open>float\<close> accordingly.
\<close>

record product =
  sku :: pystr
  name :: pystr
  category :: pystr
  price :: py_float
  cost :: "py_float option"
  inventory :: int
  unit :: pystr
  description :: pystr
  active :: bool
  product_id :: "int option"
  created_at :: pystr
  updated_at :: pystr

text \<open>\<open>Product.margin_pct\<close>. A cost of \<open>None\<close> makes the subtraction raise.\<close>

definition margin_pct :: "library \<Rightarrow> product \<Rightarrow> error + py_float" where
  "margin_pct L p =
     (if float_le_zero (price p) then Inr (Num 0)
      else case cost p of
             None \<Rightarrow> Inl TypeError
           | Some c \<Rightarrow>
               Inr (float_round L 2
                     (float_mul L (float_div L (float_sub L (price p) c) (price p)) (Num 100))))"

text \<open>\<open>Product.inventory_status\<close>.\<close>

definition inventory_status :: "product \<Rightarrow> string" where
  "inventory_status p =
     (if inventory p \<le> 0 then ''OUT_OF_STOCK''
      else if inventory p < 10 then ''LOW_STOCK''
      else ''IN_STOCK'')"

subsection \<open>The store\<close>

text \<open>
  The table \<open>products\<close>: its rows, and the counter that \<open>AUTOINCREMENT\<close> keeps (the
  largest id handed out so far).
\<close>

record store =
  rows :: "product list"
  seq :: int

definition empty_store :: store where
  "empty_store = \<lparr>rows = [], seq = 0\<rparr>"

text \<open>
  Binding the parameters of a statement, in their order: the first text that cannot be
  encoded raises \<open>UnicodeEncodeError\<close>, the first integer beyond 64 bits
  \<open>OverflowError\<close>. The statement runs only when every parameter is bound.
\<close>

datatype param = PText pystr | PInt int | PFloat py_float

fun bind :: "param list \<Rightarrow> error option" where
  "bind [] = None"
| "bind (PText t # ps) = (if encodable t then bind ps else Some UnicodeEncodeError)"
| "bind (PInt n # ps) = (if int64 n then bind ps else Some OverflowError)"
| "bind (PFloat x # ps) = bind ps"

text \<open>
  \<open>add_product\<close>. The two clock readings are the default values of \<open>created_at\<close> and
  \<open>updated_at\<close>. A price that is not a number violates \<open>NOT NULL\<close>, a sku already
  in the table violates \<open>UNIQUE\<close>. A failing \<open>INSERT\<close> leaves the table as it was.
  The product returned carries the values given; the row holds what the columns store.
\<close>

definition add_product ::
  "library \<Rightarrow> store \<Rightarrow> pystr \<Rightarrow> pystr \<Rightarrow> pystr \<Rightarrow> py_float \<Rightarrow> py_float \<Rightarrow> int \<Rightarrow> pystr \<Rightarrow> pystr
     \<Rightarrow> pystr \<Rightarrow> pystr \<Rightarrow> (error + product) \<times> store" where
  "add_product L st s n c pr co iv u d t_created t_updated =
     (let p = \<lparr>sku = upper L s, name = n, category = c, price = pr, cost = Some co,
               inventory = iv, unit = u, description = d, active = True,
               product_id = None, created_at = t_created, updated_at = t_updated\<rparr>
      in case bind [PText (sku p), PText (name p), PText (category p), PFloat pr, PFloat co,
                    PInt (inventory p), PText (unit p), PText (description p), PInt 1,
                    PText (created_at p), PText (updated_at p)] of
           Some e \<Rightarrow> (Inl e, st)
         | None \<Rightarrow>
             (case sql_real pr of
                None \<Rightarrow> (Inl IntegrityError, st)
              | Some stored_price \<Rightarrow>
                  if sku p \<in> set (map sku (rows st)) then (Inl IntegrityError, st)
                  else let i = seq st + 1;
                           row = p\<lparr>price := stored_price, cost := sql_real co,
                                   product_id := Some i\<rparr>
                       in (Inr (p\<lparr>product_id := Some i\<rparr>),
                           st\<lparr>rows := rows st @ [row], seq := i\<rparr>)))"

text \<open>
  \<open>inventory + ?\<close> in SQLite, for a column value and a bound 64-bit integer: exact
  while the operands and the sum have 64 bits, and the sum of the nearest doubles
  otherwise.
\<close>

definition sql_add :: "int \<Rightarrow> int \<Rightarrow> int" where
  "sql_add a d =
     (if int64 a
      then (if int64 (a + d) then a + d else to_double (to_double a + to_double d))
      else to_double (a + to_double d))"

text \<open>
  \<open>update_inventory\<close>: the \<open>UPDATE\<close> over every row with the sku (its \<open>SET\<close> clause
  is \<open>set_inventory\<close>), then the \<open>SELECT\<close> of the first such row.
\<close>

definition set_inventory :: "int \<Rightarrow> pystr \<Rightarrow> product \<Rightarrow> product" where
  "set_inventory delta now p =
     p\<lparr>inventory := max 0 (sql_add (inventory p) delta), updated_at := now\<rparr>"

definition update_inventory ::
  "library \<Rightarrow> store \<Rightarrow> pystr \<Rightarrow> int \<Rightarrow> pystr \<Rightarrow> (error + product option) \<times> store" where
  "update_inventory L st s delta now =
     (let k = upper L s
      in case bind [PInt delta, PText now, PText k] of
           Some e \<Rightarrow> (Inl e, st)
         | None \<Rightarrow>
             (let rows' = map (\<lambda>p. if sku p = k then set_inventory delta now p else p) (rows st);
                  st' = st\<lparr>rows := rows'\<rparr>
              in (Inr (find (\<lambda>p. sku p = k) rows'), st')))"

text \<open>The \<open>UNIQUE\<close> constraint of the schema, and the normal form \<open>add_product\<close> gives
  every sku it stores.\<close>

definition unique_skus :: "store \<Rightarrow> bool" where
  "unique_skus st = distinct (map sku (rows st))"

definition skus_upper :: "library \<Rightarrow> store \<Rightarrow> bool" where
  "skus_upper L st = list_all (\<lambda>p. upper L (sku p) = sku p) (rows st)"

text \<open>The stores the catalog reaches from the empty table by its two writing methods.\<close>

inductive reachable :: "library \<Rightarrow> store \<Rightarrow> bool" for L :: library where
  init: "reachable L empty_store"
| add: "reachable L st \<Longrightarrow> add_product L st s n c pr co iv u d t_created t_updated = (r, st')
         \<Longrightarrow> reachable L st'"
| update: "reachable L st \<Longrightarrow> update_inventory L st s delta now = (r', st')
         \<Longrightarrow> reachable L st'"

subsection \<open>Queries\<close>

text \<open>\<open>LIMIT n\<close>: a negative \<open>n\<close> puts no bound on the number of rows.\<close>

definition sql_limit :: "int \<Rightarrow> 'a list \<Rightarrow> 'a list" where
  "sql_limit n xs = (if n < 0 then xs else take (nat n) xs)"

text \<open>
  The \<open>WHERE\<close> clause \<open>list_products\<close> builds: \<open>1=1\<close>, then \<open>active = 1\<close> when
  \<open>active_only\<close> is true, then \<open>category = ?\<close> when \<open>category\<close> is truthy (neither
  \<open>None\<close> nor the empty string).
\<close>

definition list_where :: "pystr option \<Rightarrow> bool \<Rightarrow> product \<Rightarrow> bool" where
  "list_where cat active_only p =
     (True \<and> (if active_only then active p else True)
           \<and> (case cat of None \<Rightarrow> True
               | Some c \<Rightarrow> if c \<noteq> [] then category p = c else True))"

text \<open>The parameter list of \<open>list_products\<close>: the category when it is truthy, then the
  limit.\<close>

definition list_params :: "pystr option \<Rightarrow> int \<Rightarrow> param list" where
  "list_params cat limit =
     (case cat of None \<Rightarrow> [] | Some c \<Rightarrow> if c \<noteq> [] then [PText c] else []) @ [PInt limit]"

definition list_products :: "store \<Rightarrow> pystr option \<Rightarrow> bool \<Rightarrow> int \<Rightarrow> error + product list" where
  "list_products st cat active_only limit =
     (case bind (list_params cat limit) of
        Some e \<Rightarrow> Inl e
      | None \<Rightarrow>
          Inr (sql_limit limit
                (sort_key (\<lambda>p. (category p, name p))
                   (filter (list_where cat active_only) (rows st)))))"












subsection \<open>Statistics\<close>








subsection \<open>CSV export\<close>

text \<open>
  \<open>csv.writer(buf).writerow\<close> in the default dialect: a field is quoted when it holds
  the delimiter (44), the quote character (34) or a character of the line terminator
  (13, 10); a quote inside a quoted field is doubled; the row ends in carriage return
  and line feed.
\<close>

definition needs_quote :: "pystr \<Rightarrow> bool" where
  "needs_quote f = list_ex (\<lambda>c. c = 44 \<or> c = 34 \<or> c = 13 \<or> c = 10) f"

definition csv_field :: "pystr \<Rightarrow> pystr" where
  "csv_field f =
     (if needs_quote f
      then 34 # concat (map (\<lambda>c. if c = 34 then [c, c] else [c]) f) @ [34]
      else f)"

fun join_fields :: "pystr list \<Rightarrow> pystr" where
  "join_fields [] = []"
| "join_fields [f] = f"
| "join_fields (f # g # fs) = f @ [44] @ join_fields (g # fs)"

definition writerow :: "pystr list \<Rightarrow> pystr" where
  "writerow fs = join_fields (map csv_field fs) @ [13, 10]"

definition header :: "pystr list" where
  "header = map str [''SKU'', ''Name'', ''Category'', ''Price'', ''Cost'', ''Margin%'',
                     ''Inventory'', ''Unit'', ''Status'', ''Active'']"

text \<open>\<open>str\<close> of the inventory: of an \<open>int\<close> when the column holds an integer, of a
  \<open>float\<close> otherwise.\<close>

definition show_inventory :: "library \<Rightarrow> int \<Rightarrow> pystr" where
  "show_inventory L n = (if int64 n then show_int n else float_repr L n)"

text \<open>
  The row of one product. Formatting a cost of \<open>None\<close> raises \<open>TypeError\<close>; the cost
  is formatted before the margin is computed.
\<close>

definition cells :: "library \<Rightarrow> product \<Rightarrow> py_float \<Rightarrow> py_float \<Rightarrow> pystr list" where
  "cells L p c m =
     [sku p, name p, category p,
      py_format 2 (price p), py_format 2 c, py_format 1 m,
      show_inventory L (inventory p), unit p, str (inventory_status p),
      str (show_bool (active p))]"

definition product_row :: "library \<Rightarrow> product \<Rightarrow> error + pystr list" where
  "product_row L p =
     (case cost p of
        None \<Rightarrow> Inl TypeError
      | Some c \<Rightarrow>
          (case margin_pct L p of
             Inl e \<Rightarrow> Inl e
           | Inr m \<Rightarrow> Inr (cells L p c m)))"

text \<open>The loop over the products: the first row that raises ends it.\<close>

fun product_rows :: "library \<Rightarrow> product list \<Rightarrow> error + pystr list list" where
  "product_rows L [] = Inr []"
| "product_rows L (p # ps) =
     (case product_row L p of
        Inl e \<Rightarrow> Inl e
      | Inr r \<Rightarrow> (case product_rows L ps of Inl e \<Rightarrow> Inl e | Inr rs \<Rightarrow> Inr (r # rs)))"

text \<open>
  \<open>export_csv\<close>. The files are a map from paths to their text; \<open>write_text\<close> replaces
  what the path held. Nothing is written when a row raises.
\<close>

definition export_csv ::
  "library \<Rightarrow> store \<Rightarrow> pystr option \<Rightarrow> (pystr \<rightharpoonup> pystr) \<Rightarrow> (error + pystr) \<times> (pystr \<rightharpoonup> pystr)" where
  "export_csv L st output_path files =
     (case list_products st None False 100000 of
        Inl e \<Rightarrow> (Inl e, files)
      | Inr products \<Rightarrow>
          (case product_rows L products of
             Inl e \<Rightarrow> (Inl e, files)
           | Inr rs \<Rightarrow>
               (let csv_content = concat (map writerow (header # rs))
                in (Inr csv_content,
                    case output_path of None \<Rightarrow> files
                    | Some f \<Rightarrow> files(f \<mapsto> csv_content)))))"

text \<open>The shape of a number with exactly \<open>n\<close> decimals: an optional minus sign, one or
  more digits, a point, \<open>n\<close> digits.\<close>

definition is_digit :: "nat \<Rightarrow> bool" where
  "is_digit c = (48 \<le> c \<and> c \<le> 57)"

definition fixed_point :: "nat \<Rightarrow> pystr \<Rightarrow> bool" where
  "fixed_point n s =
     (let body = (case s of [] \<Rightarrow> [] | c # t \<Rightarrow> if c = 45 then t else s);
          rest = dropWhile is_digit body
      in takeWhile is_digit body \<noteq> [] \<and>
         (case rest of [] \<Rightarrow> False
          | c # fr \<Rightarrow> c = 46 \<and> length fr = n \<and> list_all is_digit fr))"

subsection \<open>A library and a small catalog for the concrete checks\<close>

text \<open>
  \<open>str.upper\<close> on the code points below 256: the letters \<open>a\<close> to \<open>z\<close> and the
  accented small letters go to their capitals, the micro sign to the Greek capital mu,
  the sharp s to \<open>SS\<close> and \<open>y\<close> with diaeresis to its capital at 376. Other code points
  are left as they are here.
\<close>

definition upper_cp :: "nat \<Rightarrow> pystr" where
  "upper_cp c =
     (if 97 \<le> c \<and> c \<le> 122 then [c - 32]
      else if c = 181 then [924]
      else if c = 223 then [83, 83]
      else if 224 \<le> c \<and> c \<le> 254 \<and> c \<noteq> 247 then [c - 32]
      else if c = 255 then [376]
      else [c])"

definition upper_latin :: "pystr \<Rightarrow> pystr" where
  "upper_latin s = concat (map upper_cp s)"

text \<open>Float operations that are exact on finite values. They give what the float
  operations give wherever the exact result is a float, as it is in the checks below.\<close>

definition exact_sub :: "py_float \<Rightarrow> py_float \<Rightarrow> py_float" where
  "exact_sub x y = (case (x, y) of (Num a, Num b) \<Rightarrow> Num (a - b) | _ \<Rightarrow> NaN)"

definition exact_div :: "py_float \<Rightarrow> py_float \<Rightarrow> py_float" where
  "exact_div x y = (case (x, y) of (Num a, Num b) \<Rightarrow> if b = 0 then NaN else Num (a / b) | _ \<Rightarrow> NaN)"

definition exact_mul :: "py_float \<Rightarrow> py_float \<Rightarrow> py_float" where
  "exact_mul x y = (case (x, y) of (Num a, Num b) \<Rightarrow> Num (a * b) | _ \<Rightarrow> NaN)"

definition exact_round :: "nat \<Rightarrow> py_float \<Rightarrow> py_float" where
  "exact_round n x =
     (case x of Num a \<Rightarrow> Num (of_int (round_half_even (a * 10 ^ n)) / 10 ^ n) | _ \<Rightarrow> x)"

definition exact_sql_mul :: "py_float \<Rightarrow> int \<Rightarrow> py_float option" where
  "exact_sql_mul x n = (case x of Num a \<Rightarrow> Some (Num (a * of_int n)) | _ \<Rightarrow> None)"

definition exact_sql_sum :: "py_float list \<Rightarrow> py_float option" where
  "exact_sql_sum xs = Some (Num (sum_list (map (\<lambda>x. case x of Num a \<Rightarrow> a | _ \<Rightarrow> 0) xs)))"

definition demo :: library where
  "demo = \<lparr>upper = upper_latin, float_sub = exact_sub, float_div = exact_div,
            float_mul = exact_mul, float_round = exact_round,
            float_repr = (\<lambda>n. show_int n @ str ''.0''),
            sql_mul = exact_sql_mul, sql_sum = exact_sql_sum\<rparr>"

text \<open>Three products: two active ones and an inactive one.\<close>

definition widget :: product where
  "widget = \<lparr>sku = str ''W1'', name = str ''Widget'', category = str ''Tools'',
     price = Num 10, cost = Some (Num 7), inventory = 5, unit = str ''ea'',
     description = [], active = True, product_id = Some 1,
     created_at = str ''2024-01-01T09:00:00'', updated_at = str ''2024-01-01T09:00:00''\<rparr>"

definition sprocket :: product where
  "sprocket = \<lparr>sku = str ''S1'', name = str ''Sprocket'', category = str ''Widgets'',
     price = Num (5 / 2), cost = Some (Num 1), inventory = 0, unit = str ''ea'',
     description = str ''steel'', active = True, product_id = Some 2,
     created_at = str ''2024-01-02T09:00:00'', updated_at = str ''2024-01-02T09:00:00''\<rparr>"

definition gadget :: product where
  "gadget = \<lparr>sku = str ''G1'', name = str ''Gadget'', category = str ''Gizmos'',
     price = Num 20, cost = Some (Num 25), inventory = 12, unit = str ''box'',
     description = str ''retired'', active = False, product_id = Some 3,
     created_at = str ''2024-01-03T09:00:00'', updated_at = str ''2024-01-03T09:00:00''\<rparr>"

definition shop :: store where
  "shop = \<lparr>rows = [widget, sprocket, gadget], seq = 3\<rparr>"

text \<open>What \<open>add_product\<close> returns on the empty store for an inventory of \<open>-1\<close>.\<close>

definition backorder :: product where
  "backorder = \<lparr>sku = str ''B1'', name = str ''Bolt'', category = str ''Tools'',
     price = Num 1, cost = Some (Num 0), inventory = - 1, unit = str ''ea'',
     description = [], active = True, product_id = Some 1,
     created_at = str ''2024-01-04T09:00:00'', updated_at = str ''2024-01-04T09:00:01''\<rparr>"



text \<open>The row \<open>add_product\<close> stores for a cost that is not a number, and a product with an
  infinite price.\<close>

definition costless :: product where
  "costless = \<lparr>sku = str ''N1'', name = str ''Nut'', category = str ''Tools'',
     price = Num 1, cost = None, inventory = 4, unit = str ''ea'',
     description = [], active = True, product_id = Some 1,
     created_at = str ''2024-01-08T09:00:00'', updated_at = str ''2024-01-08T09:00:00''\<rparr>"

definition priceless :: product where
  "priceless = \<lparr>sku = str ''P1'', name = str ''Pearl'', category = str ''Gems'',
     price = PosInf, cost = Some (Num 1), inventory = 1, unit = str ''ea'',
     description = [], active = True, product_id = Some 1,
     created_at = str ''2024-01-09T09:00:00'', updated_at = str ''2024-01-09T09:00:00''\<rparr>"

text \<open>A product whose inventory is the largest 64-bit integer.\<close>

definition hoard :: product where
  "hoard = \<lparr>sku = str ''H1'', name = str ''Hoard'', category = str ''Gems'',
     price = Num 1, cost = Some (Num 0), inventory = 9223372036854775807, unit = str ''ea'',
     description = [], active = True, product_id = Some 1,
     created_at = str ''2024-01-10T09:00:00'', updated_at = str ''2024-01-10T09:00:00''\<rparr>"

definition vault :: store where
  "vault = \<lparr>rows = [hoard], seq = 1\<rparr>"

text \<open>
  A catalog of 100001 products: 100000 of category \<open>A\<close> with the skus \<open>B0\<close>, \<open>B1\<close>,
  and so on, and one of category \<open>Z\<close>.
\<close>

definition bulk_item :: "nat \<Rightarrow> product" where
  "bulk_item i = \<lparr>sku = 66 # show_nat i, name = str ''Bulk'', category = str ''A'',
     price = Num 1, cost = Some (Num 0), inventory = 1, unit = str ''ea'',
     description = [], active = True, product_id = Some (int i + 1),
     created_at = str ''2024-01-05T09:00:00'', updated_at = str ''2024-01-05T09:00:00''\<rparr>"

definition bulk_items :: "nat \<Rightarrow> product list" where
  "bulk_items n = map bulk_item [0..<n]"

definition last_item :: product where
  "last_item = \<lparr>sku = str ''Z1'', name = str ''Last'', category = str ''Z'',
     price = Num 1, cost = Some (Num 0), inventory = 1, unit = str ''ea'',
     description = [], active = True, product_id = Some 100001,
     created_at = str ''2024-01-06T09:00:00'', updated_at = str ''2024-01-06T09:00:00''\<rparr>"

definition warehouse :: store where
  "warehouse = \<lparr>rows = bulk_items 100000 @ [last_item], seq = 100001\<rparr>"

section \<open>Properties\<close>

subsection \<open>The library of the checks\<close>





subsection \<open>The update of one sku\<close>

lemma sku_set_inventory: "sku (set_inventory delta now p) = sku p"
  by (simp add: set_inventory_def)

lemma sku_comp_update:
  "sku \<circ> (\<lambda>p. if sku p = k then set_inventory delta now p else p) = sku"
  by (auto simp: fun_eq_iff sku_set_inventory)

lemma find_update_unique:
  assumes "distinct (map sku xs)" and "p \<in> set xs"
  shows "find (\<lambda>q. sku q = sku p)
           (map (\<lambda>q. if sku q = sku p then set_inventory delta now q else q) xs)
         = Some (set_inventory delta now p)"
  using assms
proof (induction xs)
  case Nil
  then show ?case by simp
next
  case (Cons x xs)
  show ?case
  proof (cases "x = p")
    case True
    then show ?thesis by (simp add: sku_set_inventory)
  next
    case False
    with Cons.prems have "p \<in> set xs" and "sku x \<noteq> sku p" by auto
    with Cons show ?thesis by simp
  qed
qed


lemma nth_update_unique:
  assumes "distinct (map sku xs)" and "i < length xs" and "j < length xs" and "j \<noteq> i"
  shows "sku (xs ! j) \<noteq> sku (xs ! i)"
  using assms by (metis distinct_conv_nth length_map nth_map)

lemma update_rows_unique:
  assumes "distinct (map sku xs)" and "p \<in> set xs"
  shows "map (\<lambda>q. if sku q = sku p then f q else q) xs = map (\<lambda>q. if q = p then f p else q) xs"
proof (rule map_cong [OF refl])
  fix q assume "q \<in> set xs"
  with assms have "sku q = sku p \<longleftrightarrow> q = p"
    by (metis distinct_map inj_onD)
  then show "(if sku q = sku p then f q else q) = (if q = p then f p else q)" by auto
qed

text \<open>What \<open>update_inventory\<close> does once its parameters are bound, and when they are not.\<close>

lemma update_inventory_bound:
  assumes "int64 delta" and "encodable now" and "encodable (upper L s)"
  shows "update_inventory L st s delta now =
     (Inr (find (\<lambda>p. sku p = upper L s)
             (map (\<lambda>p. if sku p = upper L s then set_inventory delta now p else p) (rows st))),
      st\<lparr>rows := map (\<lambda>p. if sku p = upper L s then set_inventory delta now p else p) (rows st)\<rparr>)"
  using assms by (simp add: update_inventory_def Let_def)


lemma update_inventory_rows:
  "rows (snd (update_inventory L st s delta now)) = rows st \<or>
   rows (snd (update_inventory L st s delta now))
     = map (\<lambda>p. if sku p = upper L s then set_inventory delta now p else p) (rows st)"
  by (auto simp: update_inventory_def Let_def split: option.splits)

lemma update_inventory_seq: "seq (snd (update_inventory L st s delta now)) = seq st"
  by (auto simp: update_inventory_def Let_def split: option.splits)

text \<open>
  Unique skus and uppercase skus hold of the empty store and are kept by the two methods
  that write, so they hold of every store the catalog reaches.
\<close>

lemma invariants_empty: "unique_skus empty_store \<and> skus_upper L empty_store"
  by (simp add: unique_skus_def skus_upper_def empty_store_def)

lemma add_product_invariants:
  assumes "add_product L st s n c pr co iv u d t1 t2 = (r, st')"
  shows "unique_skus st \<Longrightarrow> unique_skus st'"
    and "upper_idempotent L \<Longrightarrow> skus_upper L st \<Longrightarrow> skus_upper L st'"
  using assms
  by (auto simp: add_product_def unique_skus_def skus_upper_def Let_def upper_idempotent_def
           split: if_splits option.splits)

lemma update_inventory_invariants:
  assumes "update_inventory L st s delta now = (r, st')"
  shows "unique_skus st \<Longrightarrow> unique_skus st'" and "skus_upper L st \<Longrightarrow> skus_upper L st'"
proof -
  from assms have "snd (update_inventory L st s delta now) = st'" by simp
  with update_inventory_rows [of L st s delta now]
  have "map sku (rows st') = map sku (rows st)"
    by (auto simp: sku_comp_update)
  then have eq: "map sku (rows st') = map sku (rows st)" .
  have up: "skus_upper L x \<longleftrightarrow> (\<forall>k \<in> set (map sku (rows x)). upper L k = k)" for x
    by (simp add: skus_upper_def list_all_iff)
  show "unique_skus st \<Longrightarrow> unique_skus st'"
    by (simp add: unique_skus_def eq)
  show "skus_upper L st \<Longrightarrow> skus_upper L st'"
    by (simp only: up eq)
qed

lemma reachable_invariants:
  assumes "reachable L st" and "upper_idempotent L"
  shows "unique_skus st \<and> skus_upper L st"
  using assms
proof (induction rule: reachable.induct)
  case init
  show ?case by (rule invariants_empty)
next
  case (add st s n c pr co iv u d t_created t_updated r st')
  from add.IH [OF add.prems] add_product_invariants [OF add.hyps(2)] add.prems
  show ?case by simp
next
  case (update st s delta now r' st')
  from update.IH [OF update.prems] update_inventory_invariants [OF update.hyps(2)]
  show ?case by simp
qed

subsection \<open>Addition in SQLite\<close>

lemma to_double_nonpos:
  assumes "n \<le> 0"
  shows "to_double n \<le> 0"
proof (cases "bit_length \<bar>n\<bar> \<le> 53")
  case True
  with assms show ?thesis by (simp add: to_double_def)
next
  case False
  define q :: int where "q = 2 ^ (bit_length \<bar>n\<bar> - 53)"
  have q: "0 < q" by (simp add: q_def)
  from False have "n \<noteq> 0" by (auto simp: bit_length.simps [of 0])
  with assms have "n < 0" by simp
  with q have "n div q < 0" by (simp add: pos_imp_zdiv_neg_iff)
  then have "q * (n div q) \<le> 0" and "q * (n div q + 1) \<le> 0"
    using q by (simp_all add: mult_le_0_iff)
  with False show ?thesis
    by (simp add: to_double_def Let_def q_def [symmetric])
qed

lemma sql_add_exact:
  assumes "int64 a" and "int64 d" and "a + d < 2 ^ 63"
  shows "max 0 (sql_add a d) = max 0 (a + d)"
proof (cases "int64 (a + d)")
  case True
  with assms show ?thesis by (simp add: sql_add_def)
next
  case False
  with assms(3) have low: "a + d < - (2 ^ 63)" by (simp add: int64_def)
  with assms(1,2) have "a \<le> 0" and "d \<le> 0" by (simp_all add: int64_def)
  then have "to_double a + to_double d \<le> 0"
    using to_double_nonpos [of a] to_double_nonpos [of d] by simp
  then have "to_double (to_double a + to_double d) \<le> 0"
    by (rule to_double_nonpos)
  with assms(1) False low show ?thesis by (simp add: sql_add_def)
qed

subsection \<open>Inventory status\<close>

text \<open>
  Claim C9, as the code has it. The status is \<open>OUT_OF_STOCK\<close> exactly when the inventory is
  at most 0, \<open>LOW_STOCK\<close> exactly when it lies strictly between 0 and 10, and
  \<open>IN_STOCK\<close> exactly when it is at least 10. For an inventory that is not negative the
  first case is the claim's \<open>inventory == 0\<close>.
\<close>

theorem inventory_status_cases:
  "(inventory_status p = ''OUT_OF_STOCK'' \<longleftrightarrow> inventory p \<le> 0) \<and>
   (inventory_status p = ''LOW_STOCK'' \<longleftrightarrow> 0 < inventory p \<and> inventory p < 10) \<and>
   (inventory_status p = ''IN_STOCK'' \<longleftrightarrow> 10 \<le> inventory p)"
  by (simp add: inventory_status_def)

theorem inventory_status_cases_witness:
  "inventory_status widget = ''LOW_STOCK'' \<and> 0 < inventory widget \<and> inventory widget < 10"
proof -
  have "0 < inventory widget \<and> inventory widget < 10" by code_simp
  with inventory_status_cases [of widget] show ?thesis by simp
qed

text \<open>
  C9 as stated fails on a negative inventory: \<open>add_product\<close> stores the inventory it is
  given, here \<open>-1\<close>, and the status of that product is \<open>OUT_OF_STOCK\<close> although its
  inventory is not 0.
\<close>

theorem inventory_status_counterexample:
  "fst (add_product demo empty_store (str ''b1'') (str ''Bolt'') (str ''Tools'') (Num 1) (Num 0)
          (- 1) (str ''ea'') [] (str ''2024-01-04T09:00:00'') (str ''2024-01-04T09:00:01''))
     = Inr backorder \<and>
   \<not> (inventory_status backorder = ''OUT_OF_STOCK'' \<longleftrightarrow> inventory backorder = 0)"
  by code_simp

subsection \<open>Adding a product\<close>








subsection \<open>Adjusting the inventory\<close>

lemma update_inventory_hit:
  assumes "unique_skus st" and "p \<in> set (rows st)" and "sku p = upper L s"
    and "int64 delta" and "encodable now" and "encodable (sku p)"
  shows "fst (update_inventory L st s delta now) = Inr (Some (set_inventory delta now p))"
    and "rows (snd (update_inventory L st s delta now))
           = map (\<lambda>q. if q = p then set_inventory delta now p else q) (rows st)"
proof -
  have d: "distinct (map sku (rows st))"
    using assms(1) by (simp add: unique_skus_def)
  have run: "update_inventory L st s delta now =
     (Inr (find (\<lambda>q. sku q = sku p)
             (map (\<lambda>q. if sku q = sku p then set_inventory delta now q else q) (rows st))),
      st\<lparr>rows := map (\<lambda>q. if sku q = sku p then set_inventory delta now q else q) (rows st)\<rparr>)"
    using update_inventory_bound [where L = L and st = st and s = s and delta = delta and now = now] assms(3,4,5,6) by simp
  show "fst (update_inventory L st s delta now) = Inr (Some (set_inventory delta now p))"
    by (simp add: run find_update_unique [OF d assms(2)])
  show "rows (snd (update_inventory L st s delta now))
       = map (\<lambda>q. if q = p then set_inventory delta now p else q) (rows st)"
    by (simp add: run update_rows_unique [OF d assms(2)])
qed

text \<open>
  Claim C2, as the code has it. Let \<open>p\<close> be the stored product whose sku is the one
  \<open>update_inventory\<close> looks up (the uppercased argument; for a sku as \<open>add_product\<close>
  stores it, the sku itself), and let \<open>delta\<close> have 64 bits. The call returns \<open>p\<close> with
  its \<open>updated_at\<close> set to the clock reading and its inventory set by the \<open>UPDATE\<close>, the
  table holds that row in place of \<open>p\<close>, and no other row changes. The new inventory is
  never below 0, and it is \<open>max 0 (inventory p + delta)\<close> whenever the old inventory has
  64 bits and the sum stays below \<open>2^63\<close>. The result is a value, not an error: an
  overdraft is clamped silently.
\<close>

theorem update_inventory_present:
  assumes "unique_skus st" and "p \<in> set (rows st)" and "sku p = upper L s"
    and "int64 delta" and "encodable now" and "encodable (sku p)"
  shows "fst (update_inventory L st s delta now) = Inr (Some (set_inventory delta now p)) \<and>
         rows (snd (update_inventory L st s delta now))
           = map (\<lambda>q. if q = p then set_inventory delta now p else q) (rows st) \<and>
         set_inventory delta now p \<in> set (rows (snd (update_inventory L st s delta now))) \<and>
         updated_at (set_inventory delta now p) = now \<and>
         0 \<le> inventory (set_inventory delta now p) \<and>
         (int64 (inventory p) \<and> inventory p + delta < 2 ^ 63 \<longrightarrow>
            inventory (set_inventory delta now p) = max 0 (inventory p + delta))"
proof -
  note hit = update_inventory_hit [OF assms]
  have ret: "fst (update_inventory L st s delta now) = Inr (Some (set_inventory delta now p))"
    by (rule hit(1))
  have rws: "rows (snd (update_inventory L st s delta now))
       = map (\<lambda>q. if q = p then set_inventory delta now p else q) (rows st)"
    by (rule hit(2))
  have mem: "set_inventory delta now p \<in> set (rows (snd (update_inventory L st s delta now)))"
    unfolding rws using assms(2) by force
  have val: "inventory (set_inventory delta now p) = max 0 (inventory p + delta)"
    if "int64 (inventory p) \<and> inventory p + delta < 2 ^ 63"
    using that sql_add_exact [of "inventory p" delta] assms(4)
    by (simp add: set_inventory_def)
  from ret rws mem val show ?thesis
    by (simp add: set_inventory_def)
qed


theorem update_inventory_present_witness:
  "unique_skus shop \<and> widget \<in> set (rows shop) \<and> sku widget = upper demo (str ''w1'') \<and>
   int64 (- 100) \<and> encodable (str ''2024-02-01T10:00:00'') \<and> encodable (sku widget) \<and>
   fst (update_inventory demo shop (str ''w1'') (- 100) (str ''2024-02-01T10:00:00''))
     = Inr (Some (set_inventory (- 100) (str ''2024-02-01T10:00:00'') widget)) \<and>
   inventory (set_inventory (- 100) (str ''2024-02-01T10:00:00'') widget) = 0"
proof -
  have a: "unique_skus shop" by code_simp
  have b: "widget \<in> set (rows shop)" by code_simp
  have c: "sku widget = upper demo (str ''w1'')" by code_simp
  have d: "int64 (- 100)" by code_simp
  have e: "encodable (str ''2024-02-01T10:00:00'')" by code_simp
  have f: "encodable (sku widget)" by code_simp
  have g: "int64 (inventory widget) \<and> inventory widget + (- 100) < 2 ^ 63" by code_simp
  have h: "max 0 (inventory widget + (- 100)) = 0" by code_simp
  from update_inventory_present [OF a b c d e f] g h a b c d e f
  show ?thesis by simp
qed

text \<open>
  C2 as stated fails for a \<open>delta\<close> beyond 64 bits, which raises \<open>OverflowError\<close>, and
  when the sum passes \<open>2^63\<close>: from the inventory \<open>2^63 - 1\<close>, the same \<open>delta\<close> gives
  the double \<open>2^64\<close>, not the sum.
\<close>

theorem update_inventory_present_counterexample:
  "update_inventory demo shop (str ''w1'') 9223372036854775808 (str ''2024-02-01T10:00:00'')
     = (Inl OverflowError, shop) \<and>
   fst (update_inventory demo vault (str ''h1'') 9223372036854775807 (str ''2024-02-01T10:00:00''))
     = Inr (Some (hoard\<lparr>inventory := 18446744073709551616,
                          updated_at := str ''2024-02-01T10:00:00''\<rparr>)) \<and>
   max 0 (inventory hoard + 9223372036854775807) = 18446744073709551614"
  by code_simp





text \<open>
  Claim C8. Adjusting the inventory of the product at position \<open>i\<close> of the table, with
  any \<open>delta\<close>, changes that row only, and in that row only \<open>inventory\<close> and
  \<open>updated_at\<close>: its sku, name, category, price, cost, unit, description, active flag,
  id and \<open>created_at\<close> are the old ones. Every other row is unchanged, no row is added
  or removed, and the id counter stays.
\<close>

theorem update_inventory_frame:
  assumes "unique_skus st" and "i < length (rows st)" and "sku (rows st ! i) = upper L s"
  shows "length (rows (snd (update_inventory L st s delta now))) = length (rows st) \<and>
         seq (snd (update_inventory L st s delta now)) = seq st \<and>
         (\<forall>j < length (rows st). j \<noteq> i \<longrightarrow>
            rows (snd (update_inventory L st s delta now)) ! j = rows st ! j) \<and>
         (let p = rows st ! i; p' = rows (snd (update_inventory L st s delta now)) ! i
          in p' = p\<lparr>inventory := inventory p', updated_at := updated_at p'\<rparr> \<and>
             sku p' = sku p \<and> name p' = name p \<and> category p' = category p \<and>
             price p' = price p \<and> cost p' = cost p \<and> unit p' = unit p \<and>
             description p' = description p \<and> active p' = active p \<and>
             product_id p' = product_id p \<and> created_at p' = created_at p)"
proof -
  let ?st' = "snd (update_inventory L st s delta now)"
  let ?upd = "map (\<lambda>q. if sku q = upper L s then set_inventory delta now q else q) (rows st)"
  from update_inventory_rows [of L st s delta now]
  show ?thesis
  proof
    assume same: "rows ?st' = rows st"
    then show ?thesis by (simp add: update_inventory_seq Let_def)
  next
    assume rows': "rows ?st' = ?upd"
    have others: "rows ?st' ! j = rows st ! j" if "j < length (rows st)" and "j \<noteq> i" for j
      using nth_update_unique [of "rows st" i j] assms that
      by (simp add: rows' unique_skus_def)
    have target: "rows ?st' ! i = set_inventory delta now (rows st ! i)"
      using assms by (simp add: rows')
    show ?thesis
      using others target
      by (simp add: rows' update_inventory_seq Let_def) (simp add: set_inventory_def)
  qed
qed

theorem update_inventory_frame_witness:
  "unique_skus shop \<and> (1::nat) < length (rows shop) \<and>
   sku (rows shop ! 1) = upper demo (str ''s1'') \<and>
   rows (snd (update_inventory demo shop (str ''s1'') 4 (str ''2024-02-01T10:00:00''))) ! 0
     = rows shop ! 0 \<and>
   rows (snd (update_inventory demo shop (str ''s1'') 4 (str ''2024-02-01T10:00:00''))) ! 2
     = rows shop ! 2 \<and>
   name (rows (snd (update_inventory demo shop (str ''s1'') 4 (str ''2024-02-01T10:00:00''))) ! 1)
     = name sprocket"
proof -
  have a: "unique_skus shop" by code_simp
  have b: "(1::nat) < length (rows shop)" by code_simp
  have c: "sku (rows shop ! 1) = upper demo (str ''s1'')" by code_simp
  have d: "length (rows shop) = 3" by code_simp
  have e: "rows shop ! 1 = sprocket" by code_simp
  from update_inventory_frame [OF a b c, of 4 "str ''2024-02-01T10:00:00''"] a b c d e
  show ?thesis by (simp add: Let_def)
qed





subsection \<open>Listing\<close>









subsection \<open>Searching\<close>











lemma encodable_append: "encodable (a @ b) \<longleftrightarrow> encodable a \<and> encodable b"
  by (simp add: encodable_def)












subsection \<open>Statistics\<close>








end
